theory Spec2Isabelle
  imports Complex_Main
begin

section \<open>JavaScript strings\<close>

text \<open>
  Strings are lists of characters. The white space of \<^verbatim>\<open>String.prototype.trim\<close> and of the
  regular expression class \<^verbatim>\<open>\s\<close> is the same set; these are its members below U+0100
  (tab, line feed, vertical tab, form feed, carriage return, space, no-break space).
\<close>

definition is_space :: "char \<Rightarrow> bool" where
  "is_space c = (c \<in> set [CHR 0x09, CHR 0x0A, CHR 0x0B, CHR 0x0C, CHR 0x0D, CHR 0x20, CHR 0xA0])"

text \<open>\<^verbatim>\<open>s.trim()\<close>: white space removed at both ends.\<close>

definition js_trim :: "string \<Rightarrow> string" where
  "js_trim s = rev (dropWhile is_space (rev (dropWhile is_space s)))"

text \<open>
  \<^verbatim>\<open>s.split(/\s+/)\<close>: the text is cut at every maximal run of white space; the pieces
  before the first run and after the last one are kept even when they are empty, so the
  empty string splits into one empty piece.
\<close>

function split_ws_from :: "string \<Rightarrow> string \<Rightarrow> string list" where
  "split_ws_from cur [] = [cur]"
| "split_ws_from cur (c # cs) =
     (if is_space c then cur # split_ws_from [] (dropWhile is_space cs)
      else split_ws_from (cur @ [c]) cs)"
  by pat_completeness auto
termination
  by (relation "measure (\<lambda>(cur, s). length s)") (auto simp: length_dropWhile_le less_Suc_eq_le)

definition js_split_ws :: "string \<Rightarrow> string list" where
  "js_split_ws s = split_ws_from [] s"

text \<open>\<^verbatim>\<open>s.split(',')\<close> and reading an index that may be out of range (\<^verbatim>\<open>undefined\<close>).\<close>

fun split_char_from :: "char \<Rightarrow> string \<Rightarrow> string \<Rightarrow> string list" where
  "split_char_from sep cur [] = [cur]"
| "split_char_from sep cur (c # cs) =
     (if c = sep then cur # split_char_from sep [] cs
      else split_char_from sep (cur @ [c]) cs)"

definition js_split_char :: "char \<Rightarrow> string \<Rightarrow> string list" where
  "js_split_char sep s = split_char_from sep [] s"

definition js_index :: "'a list \<Rightarrow> nat \<Rightarrow> 'a option" where
  "js_index xs i = (if i < length xs then Some (xs ! i) else None)"

text \<open>\<^verbatim>\<open>xs.join(sep)\<close> and \<^verbatim>\<open>s.includes(pat)\<close>.\<close>

fun js_join :: "string \<Rightarrow> string list \<Rightarrow> string" where
  "js_join sep [] = []"
| "js_join sep [x] = x"
| "js_join sep (x # y # ys) = x @ sep @ js_join sep (y # ys)"

fun js_starts_with :: "string \<Rightarrow> string \<Rightarrow> bool" where
  "js_starts_with s [] = True"
| "js_starts_with [] (p # ps) = False"
| "js_starts_with (c # cs) (p # ps) = (c = p \<and> js_starts_with cs ps)"

fun js_includes :: "string \<Rightarrow> string \<Rightarrow> bool" where
  "js_includes [] pat = (pat = [])"
| "js_includes (c # cs) pat = (js_starts_with (c # cs) pat \<or> js_includes cs pat)"

text \<open>
  The word count of the specification's Scan Heuristic: the text is tokenised at white
  space, a word being a maximal run of characters that are not white space.
\<close>

function ws_tokens :: "string \<Rightarrow> string list" where
  "ws_tokens [] = []"
| "ws_tokens (c # cs) =
     (if is_space c then ws_tokens cs
      else takeWhile (\<lambda>x. \<not> is_space x) (c # cs) #
           ws_tokens (dropWhile (\<lambda>x. \<not> is_space x) cs))"
  by pat_completeness auto
termination
  by (relation "measure length") (auto simp: length_dropWhile_le less_Suc_eq_le)

definition word_count :: "string \<Rightarrow> nat" where
  "word_count s = length (ws_tokens s)"


section \<open>Thrown values\<close>

text \<open>
  What a \<^verbatim>\<open>catch\<close> clause of the program looks at: whether the value is an instance of
  \<^verbatim>\<open>SyntaxError\<close> or of \<^verbatim>\<open>Error\<close>, its \<^verbatim>\<open>name\<close> and its \<^verbatim>\<open>message\<close>. A message
  of \<open>None\<close> is a thrown value whose \<^verbatim>\<open>message\<close> is not a string, on which
  \<^verbatim>\<open>err.message.includes\<close> itself raises a \<^verbatim>\<open>TypeError\<close>.
\<close>

datatype err_class = SyntaxErrorClass | ErrorClass | NonErrorClass

datatype js_thrown = Thrown (err_class: err_class) (err_name: "string option") (err_message: "string option")

definition instanceof_Error :: "js_thrown \<Rightarrow> bool" where
  "instanceof_Error e = (err_class e \<noteq> NonErrorClass)"

definition instanceof_SyntaxError :: "js_thrown \<Rightarrow> bool" where
  "instanceof_SyntaxError e = (err_class e = SyntaxErrorClass)"

definition new_Error :: "string \<Rightarrow> js_thrown" where
  "new_Error msg = Thrown ErrorClass (Some ''Error'') (Some msg)"

definition type_error :: js_thrown where
  "type_error = Thrown ErrorClass (Some ''TypeError'') (Some ''Cannot read properties of undefined'')"


section \<open>Files, documents and the capabilities of the environment\<close>

record cv_file =
  file_type :: string
  arrayBuffer :: "js_thrown + nat list"

text \<open>An item of a page's text content: \<^verbatim>\<open>'str' in item ? item.str : ''\<close>.\<close>

datatype text_item = TextItem string | MarkedContent

fun item_str :: "text_item \<Rightarrow> string" where
  "item_str (TextItem s) = s"
| "item_str MarkedContent = []"

text \<open>
  A page of an opened PDF: its text layer, the outcome of rendering it into a canvas
  through a viewport of a given scale, and the data URL the canvas gives afterwards for a
  given image type and quality.
\<close>

record pdf_page =
  getTextContent :: "js_thrown + text_item list"
  render :: "rat \<Rightarrow> js_thrown option"
  toDataURL :: "rat \<Rightarrow> string \<Rightarrow> rat \<Rightarrow> string"

record pdf_doc =
  pages :: "(js_thrown + pdf_page) list"

definition numPages :: "pdf_doc \<Rightarrow> nat" where
  "numPages pdf = length (pages pdf)"

definition getPage :: "pdf_doc \<Rightarrow> nat \<Rightarrow> js_thrown + pdf_page" where
  "getPage pdf i =
     (if 1 \<le> i \<and> i \<le> length (pages pdf) then pages pdf ! (i - 1)
      else Inl (new_Error ''Invalid page request.''))"

text \<open>The generation request, as the two callers build it.\<close>

datatype part = TextPart string | InlineData "string option" string

datatype gen_contents = Prompt string | Parts "part list"

datatype schema = SString | SArray schema | SObject "(string \<times> schema) list" "string list"

record gen_config =
  responseMimeType :: string
  responseSchema :: schema

record gen_request =
  model :: string
  contents :: gen_contents
  config :: "gen_config option"

datatype json =
    JNull | JBool bool | JNumber rat | JString string
  | JArray "json list" | JObject "(string \<times> json) list"

text \<open>
  The environment: the PDF decoder, the DOCX reader, whether the canvas made for page
  \<open>i\<close> gives a 2D context, the generation capability (the \<^verbatim>\<open>text\<close> of its response,
  which may be \<^verbatim>\<open>undefined\<close>) and \<^verbatim>\<open>JSON.parse\<close>.
\<close>

record env =
  getDocument :: "nat list \<Rightarrow> js_thrown + pdf_doc"
  extractRawText :: "nat list \<Rightarrow> js_thrown + string"
  getContext2d :: "nat \<Rightarrow> bool"
  generateContent :: "gen_request \<Rightarrow> js_thrown + string option"
  JSON_parse :: "string \<Rightarrow> js_thrown + json"

text \<open>Every call of a capability is recorded, in order.\<close>

datatype call =
    ArrayBuffer | GetDocument | ExtractRawText
  | GetPage nat | GetTextContent nat
  | GetViewport nat rat | GetContext nat | Render nat rat | ToDataURL nat string rat
  | GenerateContent gen_request


section \<open>parseFile\<close>

function parse_pages ::
  "pdf_doc \<Rightarrow> nat \<Rightarrow> string \<Rightarrow> call list \<Rightarrow> (js_thrown + string) \<times> call list" where
  "parse_pages pdf i textContent tr =
     (if i \<le> numPages pdf then
        (case getPage pdf i of
           Inl e \<Rightarrow> (Inl e, tr @ [GetPage i])
         | Inr page \<Rightarrow>
            (case getTextContent page of
               Inl e \<Rightarrow> (Inl e, tr @ [GetPage i, GetTextContent i])
             | Inr items \<Rightarrow>
                 parse_pages pdf (i + 1)
                   (textContent @ js_join '' '' (map item_str items) @ [CHR 0x0A])
                   (tr @ [GetPage i, GetTextContent i])))
      else (Inr textContent, tr))"
  by pat_completeness auto
termination
  by (relation "measure (\<lambda>(pdf, i, t, tr). Suc (numPages pdf) - i)") auto

definition parseFile ::
  "env \<Rightarrow> cv_file \<Rightarrow> call list \<Rightarrow> (js_thrown + string \<times> bool) \<times> call list" where
  "parseFile env file tr =
     (if file_type file = ''application/pdf'' then
        (case arrayBuffer file of
           Inl e \<Rightarrow> (Inl e, tr @ [ArrayBuffer])
         | Inr bytes \<Rightarrow>
            (case getDocument env bytes of
               Inl e \<Rightarrow> (Inl e, tr @ [ArrayBuffer, GetDocument])
             | Inr pdf \<Rightarrow>
                (case parse_pages pdf 1 [] (tr @ [ArrayBuffer, GetDocument]) of
                   (Inl e, tr') \<Rightarrow> (Inl e, tr')
                 | (Inr textContent, tr') \<Rightarrow>
                     (Inr (textContent,
                           0 < numPages pdf \<and> length (js_split_ws (js_trim textContent)) < 50),
                      tr'))))
      else if file_type file =
          ''application/vnd.openxmlformats-officedocument.wordprocessingml.document'' then
        (case arrayBuffer file of
           Inl e \<Rightarrow> (Inl e, tr @ [ArrayBuffer])
         | Inr bytes \<Rightarrow>
            (case extractRawText env bytes of
               Inl e \<Rightarrow> (Inl e, tr @ [ArrayBuffer, ExtractRawText])
             | Inr v \<Rightarrow> (Inr (v, False), tr @ [ArrayBuffer, ExtractRawText])))
      else (Inl (new_Error ''Unsupported file type''), tr))"


section \<open>extractTextFromImagesWithGemini\<close>

definition ocr_prompt :: string where
  "ocr_prompt = ''You are an Optical Character Recognition (OCR) expert. Extract all text content from these document pages in the order they are provided. Combine the text from all pages into a single block of text. Preserve the original structure, paragraphs, and line breaks as best as possible.''"

definition ocr_request :: "string option list \<Rightarrow> gen_request" where
  "ocr_request base64Images =
     \<lparr>model = ''gemini-2.5-flash'',
      contents = Parts (TextPart ocr_prompt # map (\<lambda>img. InlineData img ''image/jpeg'') base64Images),
      config = None\<rparr>"

text \<open>The \<^verbatim>\<open>catch\<close> clause of the OCR call.\<close>

definition ocr_catch :: "js_thrown \<Rightarrow> js_thrown" where
  "ocr_catch error =
     (if instanceof_Error error then
        (case err_message error of
           None \<Rightarrow> type_error
         | Some m \<Rightarrow>
            if js_includes m ''API key not valid''
            then new_Error ''The API key is invalid. Please check your configuration.''
            else new_Error ''Failed to extract text from the document image using AI.'')
      else new_Error ''Failed to extract text from the document image using AI.'')"

definition extractTextFromImagesWithGemini ::
  "env \<Rightarrow> string option list \<Rightarrow> call list \<Rightarrow> (js_thrown + string option) \<times> call list" where
  "extractTextFromImagesWithGemini env base64Images tr =
     (case generateContent env (ocr_request base64Images) of
        Inr response_text \<Rightarrow> (Inr response_text, tr @ [GenerateContent (ocr_request base64Images)])
      | Inl error \<Rightarrow> (Inl (ocr_catch error), tr @ [GenerateContent (ocr_request base64Images)]))"


section \<open>performOcrOnPdf\<close>

function ocr_pages ::
  "env \<Rightarrow> pdf_doc \<Rightarrow> nat \<Rightarrow> nat \<Rightarrow> string option list \<Rightarrow> call list \<Rightarrow>
   (js_thrown + string option list) \<times> call list" where
  "ocr_pages env pdf i maxPagesForOcr base64Images tr =
     (if i \<le> maxPagesForOcr then
        (case getPage pdf i of
           Inl e \<Rightarrow> (Inl e, tr @ [GetPage i])
         | Inr page \<Rightarrow>
            (if getContext2d env i then
               (case render page 2 of
                  Some e \<Rightarrow> (Inl e, tr @ [GetPage i, GetViewport i 2, GetContext i, Render i 2])
                | None \<Rightarrow>
                    ocr_pages env pdf (i + 1) maxPagesForOcr
                      (base64Images @
                         [js_index (js_split_char CHR '','' (toDataURL page 2 ''image/jpeg'' (9 / 10))) 1])
                      (tr @ [GetPage i, GetViewport i 2, GetContext i, Render i 2,
                             ToDataURL i ''image/jpeg'' (9 / 10)]))
             else ocr_pages env pdf (i + 1) maxPagesForOcr base64Images
                    (tr @ [GetPage i, GetViewport i 2, GetContext i])))
      else (Inr base64Images, tr))"
  by pat_completeness auto
termination
  by (relation "measure (\<lambda>(env, pdf, i, m, imgs, tr). Suc m - i)") auto

definition performOcrOnPdf ::
  "env \<Rightarrow> cv_file \<Rightarrow> call list \<Rightarrow> (js_thrown + string option) \<times> call list" where
  "performOcrOnPdf env file tr =
     (case arrayBuffer file of
        Inl e \<Rightarrow> (Inl e, tr @ [ArrayBuffer])
      | Inr bytes \<Rightarrow>
         (case getDocument env bytes of
            Inl e \<Rightarrow> (Inl e, tr @ [ArrayBuffer, GetDocument])
          | Inr pdf \<Rightarrow>
             (case ocr_pages env pdf 1 (min (numPages pdf) 5) [] (tr @ [ArrayBuffer, GetDocument]) of
                (Inl e, tr') \<Rightarrow> (Inl e, tr')
              | (Inr base64Images, tr') \<Rightarrow>
                  if length base64Images = 0
                  then (Inl (new_Error ''Could not convert PDF pages to images for OCR.''), tr')
                  else extractTextFromImagesWithGemini env base64Images tr')))"


section \<open>optimizeCvWithGemini\<close>

definition cvSchema :: schema where
  "cvSchema =
     SObject
       [(''fullName'', SString),
        (''contactInfo'',
           SObject [(''email'', SString), (''phone'', SString), (''linkedin'', SString),
                    (''location'', SString)]
                   [''email'', ''phone'', ''location'']),
        (''summary'', SString),
        (''workExperience'',
           SArray (SObject [(''jobTitle'', SString), (''company'', SString), (''location'', SString),
                            (''dates'', SString), (''responsibilities'', SArray SString)]
                           [''jobTitle'', ''company'', ''dates'', ''responsibilities''])),
        (''education'',
           SArray (SObject [(''institution'', SString), (''degree'', SString), (''dates'', SString)]
                           [''institution'', ''degree'', ''dates''])),
        (''skills'', SArray SString)]
       [''fullName'', ''contactInfo'', ''summary'', ''workExperience'', ''education'', ''skills'']"

definition optimize_prompt :: "string \<Rightarrow> string \<Rightarrow> string" where
  \<open>optimize_prompt currentUserCv jobDescription =
     js_join [CHR 0x0A]
       [[],
        ''You are a world-class professional CV writer and Applicant Tracking System (ATS) optimization expert. Your task is to rewrite a user's CV to perfectly align with a specific job description.'',
        [],
        ''**You will be given two inputs:**'',
        ''1.  **[CURRENT CV]**: The user's existing CV content.'',
        ''2.  **[JOB DESCRIPTION]**: The target job description.'',
        [],
        ''**Your instructions are:**'',
        ''1.  **Analyze and Extract:** Thoroughly analyze the [CURRENT CV] to understand the user's experience, skills, and qualifications. Also, analyze the [JOB DESCRIPTION] to identify all key skills, qualifications, technologies, and responsibilities.'',
        ''2.  **Rewrite and Integrate:** Modify the user's CV content by strategically and naturally weaving in the keywords from the job description. Enhance bullet points with quantifiable achievements and action verbs that match the target role.'',
        ''3.  **Ensure Truthfulness:** The new content must be truthful and accurately reflect the user's experience. Do not invent experience or skills the user does not possess.'',
        ''4.  **Populate the JSON:** Based on the rewritten content, populate the provided JSON schema. Ensure all fields are filled correctly and logically. The structure of the CV should follow a standard professional format: Summary, Work Experience, Skills, Education.'',
        [],
        ''---'',
        [],
        ''**[CURRENT CV]**'',
        currentUserCv,
        [],
        ''---'',
        [],
        ''**[JOB DESCRIPTION]**'',
        jobDescription,
        []]\<close>

definition optimize_request :: "string \<Rightarrow> string \<Rightarrow> gen_request" where
  "optimize_request currentUserCv jobDescription =
     \<lparr>model = ''gemini-2.5-flash'',
      contents = Prompt (optimize_prompt currentUserCv jobDescription),
      config = Some \<lparr>responseMimeType = ''application/json'', responseSchema = cvSchema\<rparr>\<rparr>"

text \<open>The \<^verbatim>\<open>catch\<close> clause of the optimization call.\<close>

definition optimize_catch :: "js_thrown \<Rightarrow> js_thrown" where
  "optimize_catch error =
     (if instanceof_SyntaxError error
      then new_Error ''The AI returned an invalid JSON format. Please try again.''
      else if instanceof_Error error then
        (case err_message error of
           None \<Rightarrow> type_error
         | Some m \<Rightarrow>
            if js_includes m ''API key not valid''
            then new_Error ''The API key is invalid. Please check your configuration.''
            else new_Error ''Failed to generate optimized CV due to an API error.'')
      else new_Error ''Failed to generate optimized CV due to an API error.'')"

text \<open>
  The value returned on success is whatever \<^verbatim>\<open>JSON.parse\<close> gave, under the type
  assertion \<^verbatim>\<open>as CvData\<close>.
\<close>

definition optimizeCvWithGemini ::
  "env \<Rightarrow> string \<Rightarrow> string \<Rightarrow> call list \<Rightarrow> (js_thrown + json) \<times> call list" where
  "optimizeCvWithGemini env currentUserCv jobDescription tr =
     (case (case generateContent env (optimize_request currentUserCv jobDescription) of
              Inl e \<Rightarrow> Inl e
            | Inr response_text \<Rightarrow>
               (case response_text of
                  None \<Rightarrow> Inl type_error
                | Some t \<Rightarrow> JSON_parse env (js_trim t))) of
        Inr parsedData \<Rightarrow>
          (Inr parsedData, tr @ [GenerateContent (optimize_request currentUserCv jobDescription)])
      | Inl error \<Rightarrow>
          (Inl (optimize_catch error),
           tr @ [GenerateContent (optimize_request currentUserCv jobDescription)]))"

text \<open>
  The \<^verbatim>\<open>CvData\<close> shape, with the fields that \<^verbatim>\<open>cvSchema\<close> requires: what a returned
  value has to satisfy to be a \<^verbatim>\<open>CvData\<close>.
\<close>

definition has_string :: "(string \<times> json) list \<Rightarrow> string \<Rightarrow> bool" where
  "has_string fs k = (case map_of fs k of Some (JString v) \<Rightarrow> True | _ \<Rightarrow> False)"

definition opt_string :: "(string \<times> json) list \<Rightarrow> string \<Rightarrow> bool" where
  "opt_string fs k = (case map_of fs k of None \<Rightarrow> True | Some (JString v) \<Rightarrow> True | _ \<Rightarrow> False)"

definition has_array :: "(json \<Rightarrow> bool) \<Rightarrow> (string \<times> json) list \<Rightarrow> string \<Rightarrow> bool" where
  "has_array ok fs k = (case map_of fs k of Some (JArray xs) \<Rightarrow> list_all ok xs | _ \<Rightarrow> False)"

definition is_JString :: "json \<Rightarrow> bool" where
  "is_JString j = (case j of JString v \<Rightarrow> True | _ \<Rightarrow> False)"

definition is_ContactInfo :: "json \<Rightarrow> bool" where
  "is_ContactInfo j =
     (case j of
        JObject fs \<Rightarrow> has_string fs ''email'' \<and> has_string fs ''phone'' \<and>
                      opt_string fs ''linkedin'' \<and> has_string fs ''location''
      | _ \<Rightarrow> False)"

definition is_WorkExperience :: "json \<Rightarrow> bool" where
  "is_WorkExperience j =
     (case j of
        JObject fs \<Rightarrow> has_string fs ''jobTitle'' \<and> has_string fs ''company'' \<and>
                      opt_string fs ''location'' \<and> has_string fs ''dates'' \<and>
                      has_array is_JString fs ''responsibilities''
      | _ \<Rightarrow> False)"

definition is_Education :: "json \<Rightarrow> bool" where
  "is_Education j =
     (case j of
        JObject fs \<Rightarrow> has_string fs ''institution'' \<and> has_string fs ''degree'' \<and>
                      has_string fs ''dates''
      | _ \<Rightarrow> False)"

definition conforms_CvData :: "json \<Rightarrow> bool" where
  "conforms_CvData j =
     (case j of
        JObject fs \<Rightarrow>
          has_string fs ''fullName'' \<and>
          (case map_of fs ''contactInfo'' of Some c \<Rightarrow> is_ContactInfo c | None \<Rightarrow> False) \<and>
          has_string fs ''summary'' \<and>
          has_array is_WorkExperience fs ''workExperience'' \<and>
          has_array is_Education fs ''education'' \<and>
          has_array is_JString fs ''skills''
      | _ \<Rightarrow> False)"


section \<open>The ingestion state and its handlers\<close>

record app_state =
  userCvFile :: "cv_file option"
  userCvText :: string
  parsingError :: "string option"
  isParsing :: bool
  isScanning :: bool

definition acceptedTypes :: "string list" where
  "acceptedTypes =
     [''application/pdf'',
      ''application/vnd.openxmlformats-officedocument.wordprocessingml.document'']"

text \<open>
  The \<^verbatim>\<open>catch\<close> clause of \<^verbatim>\<open>handleFileChange\<close>. When \<^verbatim>\<open>err.message\<close> is not a string the
  clause itself raises after the file and the text are cleared, and no message is set.
\<close>

definition hfc_catch :: "cv_file \<Rightarrow> js_thrown \<Rightarrow> app_state \<Rightarrow> app_state" where
  "hfc_catch file err s =
     (let s1 = s\<lparr>userCvFile := None, userCvText := []\<rparr> in
      case err_message err of
        None \<Rightarrow> s1
      | Some m \<Rightarrow>
         if js_includes m ''AI OCR returned no text.'' then
           s1\<lparr>parsingError := Some ''AI could not read any text from this document.''\<rparr>
         else if js_includes m ''Failed to extract text'' then
           s1\<lparr>parsingError := Some ''AI-powered text extraction failed. The document might be unreadable or a network issue occurred.''\<rparr>
         else if err_name err = Some ''PasswordException'' then
           s1\<lparr>parsingError := Some ''This PDF is password-protected. Please upload an unprotected file.''\<rparr>
         else if err_name err = Some ''InvalidPDFException'' \<or> err_name err = Some ''MissingPDFException'' then
           s1\<lparr>parsingError := Some ''The uploaded PDF file appears to be invalid or corrupted.''\<rparr>
         else if instanceof_Error err then
           (if js_includes (file_type file) ''wordprocessingml'' then
              s1\<lparr>parsingError := Some ''Could not read the DOCX file. It may be corrupted or in an old format.''\<rparr>
            else
              s1\<lparr>parsingError := Some ''Failed to read the contents of this file.''\<rparr>)
         else
           s1\<lparr>parsingError := Some ''An unexpected error occurred while processing the file.''\<rparr>)"

definition hfc_finally :: "app_state \<Rightarrow> app_state" where
  "hfc_finally s = s\<lparr>isParsing := False, isScanning := False\<rparr>"

text \<open>\<^verbatim>\<open>!ocrText || ocrText.trim().length === 0\<close>\<close>

definition ocr_no_text :: "string option \<Rightarrow> bool" where
  "ocr_no_text ocrText =
     (case ocrText of None \<Rightarrow> True | Some t \<Rightarrow> t = [] \<or> length (js_trim t) = 0)"

text \<open>
  \<^verbatim>\<open>handleFileChange\<close>, run from the selection to its end with nothing else scheduled in
  between. It works on the ingestion state and on the record of calls.
\<close>

definition handleFileChange ::
  "env \<Rightarrow> cv_file option \<Rightarrow> app_state \<Rightarrow> call list \<Rightarrow> app_state \<times> call list" where
  "handleFileChange env fileopt s tr =
     (case fileopt of
        None \<Rightarrow> (s, tr)
      | Some file \<Rightarrow>
         if file_type file \<notin> set acceptedTypes then
           (s\<lparr>parsingError := Some ''Invalid file type. Use PDF or DOCX.''\<rparr>, tr)
         else
           (let s1 = s\<lparr>userCvFile := Some file, userCvText := [], parsingError := None,
                        isParsing := True, isScanning := False\<rparr> in
            case parseFile env file tr of
              (Inl err, tr1) \<Rightarrow> (hfc_finally (hfc_catch file err s1), tr1)
            | (Inr (initialText, isScanned), tr1) \<Rightarrow>
                if isScanned \<and> file_type file = ''application/pdf'' then
                  (let s2 = s1\<lparr>isParsing := False, isScanning := True\<rparr> in
                   case performOcrOnPdf env file tr1 of
                     (Inl err, tr2) \<Rightarrow> (hfc_finally (hfc_catch file err s2), tr2)
                   | (Inr ocrText, tr2) \<Rightarrow>
                       if ocr_no_text ocrText then
                         (hfc_finally (hfc_catch file (new_Error ''AI OCR returned no text.'') s2), tr2)
                       else (hfc_finally (s2\<lparr>userCvText := the ocrText\<rparr>), tr2))
                else (hfc_finally (s1\<lparr>userCvText := initialText\<rparr>), tr1)))"

definition handleFileClear :: "app_state \<Rightarrow> app_state" where
  "handleFileClear s =
     s\<lparr>userCvFile := None, userCvText := [], parsingError := None,
       isParsing := False, isScanning := False\<rparr>"


section \<open>Attempts in flight\<close>

text \<open>
  \<^verbatim>\<open>handleFileChange\<close> is asynchronous: it gives control back at \<^verbatim>\<open>await parseFile\<close> and
  at \<^verbatim>\<open>await performOcrOnPdf\<close>, and another selection may be handled before it goes on.
  An attempt is the file it was started for and the point where it waits; the state
  setters it calls when it resumes act on the one ingestion state.
\<close>

datatype phase = AwaitParseFile | AwaitPerformOcr | Settled

record config =
  app :: app_state
  calls :: "call list"
  attempts :: "(cv_file \<times> phase) list"

datatype event = Select cv_file | Resume nat

text \<open>From the selection to the first \<^verbatim>\<open>await\<close>.\<close>

definition hfc_select :: "cv_file \<Rightarrow> app_state \<Rightarrow> app_state \<times> phase" where
  "hfc_select file s =
     (if file_type file \<notin> set acceptedTypes then
        (s\<lparr>parsingError := Some ''Invalid file type. Use PDF or DOCX.''\<rparr>, Settled)
      else
        (s\<lparr>userCvFile := Some file, userCvText := [], parsingError := None,
           isParsing := True, isScanning := False\<rparr>, AwaitParseFile))"

text \<open>From the result of \<^verbatim>\<open>parseFile\<close> to the next \<^verbatim>\<open>await\<close> or to the end.\<close>

definition hfc_parsed ::
  "cv_file \<Rightarrow> js_thrown + string \<times> bool \<Rightarrow> app_state \<Rightarrow> app_state \<times> phase" where
  "hfc_parsed file r s =
     (case r of
        Inl err \<Rightarrow> (hfc_finally (hfc_catch file err s), Settled)
      | Inr (initialText, isScanned) \<Rightarrow>
          if isScanned \<and> file_type file = ''application/pdf'' then
            (s\<lparr>isParsing := False, isScanning := True\<rparr>, AwaitPerformOcr)
          else (hfc_finally (s\<lparr>userCvText := initialText\<rparr>), Settled))"

text \<open>From the result of \<^verbatim>\<open>performOcrOnPdf\<close> to the end.\<close>

definition hfc_ocr_done ::
  "cv_file \<Rightarrow> js_thrown + string option \<Rightarrow> app_state \<Rightarrow> app_state" where
  "hfc_ocr_done file r s =
     (case r of
        Inl err \<Rightarrow> hfc_finally (hfc_catch file err s)
      | Inr ocrText \<Rightarrow>
          if ocr_no_text ocrText then
            hfc_finally (hfc_catch file (new_Error ''AI OCR returned no text.'') s)
          else hfc_finally (s\<lparr>userCvText := the ocrText\<rparr>))"

definition step :: "env \<Rightarrow> event \<Rightarrow> config \<Rightarrow> config" where
  "step env ev c =
     (case ev of
        Select file \<Rightarrow>
          (case hfc_select file (app c) of
             (s', ph) \<Rightarrow> c\<lparr>app := s', attempts := attempts c @ [(file, ph)]\<rparr>)
      | Resume k \<Rightarrow>
          if k < length (attempts c) then
            (case attempts c ! k of
               (file, AwaitParseFile) \<Rightarrow>
                 (case parseFile env file (calls c) of
                    (r, tr') \<Rightarrow>
                      (case hfc_parsed file r (app c) of
                         (s', ph) \<Rightarrow>
                           c\<lparr>app := s', calls := tr', attempts := (attempts c)[k := (file, ph)]\<rparr>))
             | (file, AwaitPerformOcr) \<Rightarrow>
                 (case performOcrOnPdf env file (calls c) of
                    (r, tr') \<Rightarrow>
                      c\<lparr>app := hfc_ocr_done file r (app c), calls := tr',
                        attempts := (attempts c)[k := (file, Settled)]\<rparr>)
             | (file, Settled) \<Rightarrow> c)
          else c)"

fun run :: "env \<Rightarrow> event list \<Rightarrow> config \<Rightarrow> config" where
  "run env [] c = c"
| "run env (ev # evs) c = run env evs (step env ev c)"

section \<open>Sample inputs\<close>

text \<open>Concrete files, documents and environments on which the theorems are instantiated.\<close>

definition text_page :: "string \<Rightarrow> pdf_page" where
  "text_page t =
     \<lparr>getTextContent = Inr [TextItem t], render = (\<lambda>scale. None),
      toDataURL = (\<lambda>scale ty q. ''data:image/jpeg;base64,'' @ t)\<rparr>"

text \<open>
  A \<^verbatim>\<open>JSON.parse\<close> for the sample environment: it knows one well-formed text, the object
  with the single field \<^verbatim>\<open>fullName\<close>, and raises a \<^verbatim>\<open>SyntaxError\<close> on any other text.
\<close>

definition sample_parse :: "string \<Rightarrow> js_thrown + json" where
  \<open>sample_parse t =
     (if t = ''{"fullName":"Ada"}'' then Inr (JObject [(''fullName'', JString ''Ada'')])
      else Inl (Thrown SyntaxErrorClass (Some ''SyntaxError'') (Some ''Unexpected token'')))\<close>

definition sample_env :: "js_thrown + pdf_doc \<Rightarrow> js_thrown + string option \<Rightarrow> env" where
  "sample_env doc gen =
     \<lparr>getDocument = (\<lambda>bytes. doc),
      extractRawText =
        (\<lambda>bytes. Inr (if bytes = [80, 75, 3, 4] then ''Jane Doe Engineer'' else ''John Roe Analyst'')),
      getContext2d = (\<lambda>i. True),
      generateContent = (\<lambda>req. gen),
      JSON_parse = sample_parse\<rparr>"

definition pdf_file :: cv_file where
  "pdf_file = \<lparr>file_type = ''application/pdf'', arrayBuffer = Inr [37, 80, 68, 70]\<rparr>"

definition other_docx_file :: cv_file where
  "other_docx_file =
     \<lparr>file_type = ''application/vnd.openxmlformats-officedocument.wordprocessingml.document'',
      arrayBuffer = Inr [80, 75, 5, 6]\<rparr>"

definition text_file :: cv_file where
  "text_file = \<lparr>file_type = ''text/plain'', arrayBuffer = Inr [37, 80, 68, 70]\<rparr>"

definition docx_file :: cv_file where
  "docx_file =
     \<lparr>file_type = ''application/vnd.openxmlformats-officedocument.wordprocessingml.document'',
      arrayBuffer = Inr [80, 75, 3, 4]\<rparr>"

definition idle :: app_state where
  "idle = \<lparr>userCvFile = None, userCvText = [], parsingError = None,
           isParsing = False, isScanning = False\<rparr>"


definition ingested :: app_state where
  "ingested = \<lparr>userCvFile = Some docx_file, userCvText = ''Jane Doe Engineer'',
               parsingError = None, isParsing = False, isScanning = False\<rparr>"

definition scan_pdf :: pdf_doc where
  "scan_pdf = \<lparr>pages = [Inr (text_page ''hello world'')]\<rparr>"

definition password_exception :: js_thrown where
  "password_exception = Thrown ErrorClass (Some ''PasswordException'') (Some ''No password given'')"

definition network_error :: js_thrown where
  "network_error = Thrown ErrorClass (Some ''TypeError'') (Some ''Failed to fetch'')"


definition twelve_pages :: pdf_doc where
  "twelve_pages =
     \<lparr>pages = map (\<lambda>t. Inr (text_page t))
        [''p1'', ''p2'', ''p3'', ''p4'', ''p5'', ''p6'', ''p7'', ''p8'', ''p9'', ''p10'', ''p11'', ''p12'']\<rparr>"


section \<open>Properties of the string operations\<close>

declare parse_pages.simps [simp del]
declare ocr_pages.simps [simp del]

lemma ws_tokens_dropWhile: "ws_tokens (dropWhile is_space s) = ws_tokens s"
  by (induction s) auto

lemma takeWhile_nonspace_append:
  "\<forall>c\<in>set b. is_space c \<Longrightarrow>
   takeWhile (\<lambda>x. \<not> is_space x) (cs @ b) = takeWhile (\<lambda>x. \<not> is_space x) cs"
  by (induction cs) (cases b; simp)+

lemma dropWhile_nonspace_append:
  "\<forall>c\<in>set b. is_space c \<Longrightarrow>
   dropWhile (\<lambda>x. \<not> is_space x) (cs @ b) = dropWhile (\<lambda>x. \<not> is_space x) cs @ b"
  by (induction cs) (cases b; simp)+

lemma ws_tokens_Nil_iff: "ws_tokens s = [] \<longleftrightarrow> (\<forall>c\<in>set s. is_space c)"
  by (induction s rule: ws_tokens.induct) auto

lemma ws_tokens_append_space: "\<forall>c\<in>set b. is_space c \<Longrightarrow> ws_tokens (a @ b) = ws_tokens a"
proof (induction a rule: ws_tokens.induct)
  case 1
  then show ?case by (simp add: ws_tokens_Nil_iff)
next
  case (2 c cs)
  show ?case
  proof (cases "is_space c")
    case True
    with 2 show ?thesis by simp
  next
    case False
    with 2 show ?thesis
      by (simp add: takeWhile_nonspace_append dropWhile_nonspace_append)
  qed
qed

lemma ws_tokens_strip_end: "ws_tokens (rev (dropWhile is_space (rev s))) = ws_tokens s"
proof -
  have "s = rev (dropWhile is_space (rev s)) @ rev (takeWhile is_space (rev s))"
    by (metis rev_append rev_rev_ident takeWhile_dropWhile_id)
  moreover have "\<forall>c\<in>set (rev (takeWhile is_space (rev s))). is_space c"
    by (auto dest: set_takeWhileD)
  ultimately show ?thesis
    by (metis ws_tokens_append_space)
qed

lemma ws_tokens_trim: "ws_tokens (js_trim s) = ws_tokens s"
  by (simp add: js_trim_def ws_tokens_strip_end ws_tokens_dropWhile)

lemma trim_Nil_iff: "js_trim s = [] \<longleftrightarrow> (\<forall>c\<in>set s. is_space c)"
proof
  assume "js_trim s = []"
  then have "\<forall>c\<in>set (dropWhile is_space s). is_space c"
    by (simp add: js_trim_def dropWhile_eq_Nil_conv)
  then have "dropWhile is_space s = []"
    using hd_dropWhile [of is_space s] hd_in_set [of "dropWhile is_space s"] by blast
  then show "\<forall>c\<in>set s. is_space c"
    by simp
next
  assume "\<forall>c\<in>set s. is_space c"
  then show "js_trim s = []"
    by (auto simp: js_trim_def dest: set_dropWhileD)
qed

lemma trim_no_trailing: "js_trim s \<noteq> [] \<Longrightarrow> \<not> is_space (last (js_trim s))"
  unfolding js_trim_def
  by (simp add: last_rev hd_dropWhile)

lemma trim_no_leading: "js_trim s \<noteq> [] \<Longrightarrow> \<not> is_space (hd (js_trim s))"
proof -
  assume ne: "js_trim s \<noteq> []"
  let ?d = "dropWhile is_space s"
  have d: "?d = js_trim s @ rev (takeWhile is_space (rev ?d))"
    unfolding js_trim_def by (metis rev_append rev_rev_ident takeWhile_dropWhile_id)
  from ne have "?d \<noteq> []"
    by (auto simp: js_trim_def dest: set_dropWhileD)
  then have "\<not> is_space (hd ?d)"
    by (rule hd_dropWhile)
  moreover have "hd ?d = hd (js_trim s)"
    using d ne by (metis hd_append2)
  ultimately show ?thesis by simp
qed

lemma last_dropWhile_space:
  "dropWhile is_space cs \<noteq> [] \<Longrightarrow> last (dropWhile is_space cs) = last cs"
  by (induction cs) (auto split: if_splits)

lemma length_split_ws_from:
  "u = [] \<or> \<not> is_space (last u) \<Longrightarrow>
   length (split_ws_from cur u) =
     length (ws_tokens u) + (if u = [] \<or> is_space (hd u) then 1 else 0)"
proof (induction cur u rule: split_ws_from.induct)
  case (1 cur)
  show ?case by simp
next
  case (2 cur c cs)
  show ?case
  proof (cases "is_space c")
    case True
    let ?u = "dropWhile is_space cs"
    from True 2(3) have cs_ne: "cs \<noteq> []" and last_cs: "\<not> is_space (last cs)"
      by (auto split: if_splits)
    then have "\<not> (\<forall>x\<in>set cs. is_space x)"
      using last_in_set by blast
    then have u_ne: "?u \<noteq> []"
      by simp
    then have hd_u: "\<not> is_space (hd ?u)"
      by (rule hd_dropWhile)
    have "\<not> is_space (last ?u)"
      using last_dropWhile_space [OF u_ne] last_cs by simp
    with 2(1) [OF True] have "length (split_ws_from [] ?u) = length (ws_tokens ?u)"
      using u_ne hd_u by simp
    with True show ?thesis
      by (simp add: ws_tokens_dropWhile)
  next
    case False
    show ?thesis
    proof (cases cs)
      case Nil
      with False show ?thesis by simp
    next
      case (Cons d ds)
      with 2(3) have "\<not> is_space (last cs)" by simp
      with 2(2) [OF False] have ih: "length (split_ws_from (cur @ [c]) cs) =
          length (ws_tokens cs) + (if is_space (hd cs) then 1 else 0)"
        using Cons by simp
      show ?thesis
        using False ih Cons by simp
    qed
  qed
qed

text \<open>
  The count the code takes is the word count, except on a text without any word, where
  the split gives one empty piece.
\<close>

lemma length_js_split_ws_trim:
  "length (js_split_ws (js_trim s)) = max 1 (word_count s)"
proof (cases "js_trim s = []")
  case True
  then have "ws_tokens s = []"
    by (simp add: trim_Nil_iff ws_tokens_Nil_iff)
  with True show ?thesis
    by (simp add: js_split_ws_def word_count_def)
next
  case False
  then have "ws_tokens s \<noteq> []"
    by (simp add: trim_Nil_iff ws_tokens_Nil_iff)
  moreover have "length (split_ws_from [] (js_trim s)) = length (ws_tokens (js_trim s))"
    using length_split_ws_from [of "js_trim s" "[]"] False
      trim_no_trailing [OF False] trim_no_leading [OF False]
    by simp
  ultimately show ?thesis
    by (cases "ws_tokens s") (simp_all add: js_split_ws_def word_count_def ws_tokens_trim)
qed

lemma split_count_lt_50_iff:
  "length (js_split_ws (js_trim s)) < 50 \<longleftrightarrow> word_count s < 50"
  by (simp add: length_js_split_ws_trim)

subsection \<open>The classification made by parseFile\<close>

lemma parseFile_pdf_scanned:
  assumes "file_type f = ''application/pdf''" "arrayBuffer f = Inr bytes"
    "getDocument env bytes = Inr pdf" "parseFile env f tr = (Inr (text, isScanned), tr')"
  shows "isScanned = (0 < numPages pdf \<and> length (js_split_ws (js_trim text)) < 50)"
  using assms by (auto simp: parseFile_def split: prod.splits sum.splits)

lemma parseFile_docx:
  assumes "file_type d = ''application/vnd.openxmlformats-officedocument.wordprocessingml.document''"
  shows "(\<exists>e. parseFile env d tr = (Inl e, tr @ [ArrayBuffer]))
       \<or> (\<exists>e. parseFile env d tr = (Inl e, tr @ [ArrayBuffer, ExtractRawText]))
       \<or> (\<exists>v. parseFile env d tr = (Inr (v, False), tr @ [ArrayBuffer, ExtractRawText]))"
  using assms by (auto simp: parseFile_def split: sum.splits)

lemma docx_accepted:
  "file_type d = ''application/vnd.openxmlformats-officedocument.wordprocessingml.document''
   \<Longrightarrow> file_type d \<in> set acceptedTypes \<and> file_type d \<noteq> ''application/pdf''"
  by (simp add: acceptedTypes_def)

lemma handleFileChange_docx_calls:
  assumes "file_type d = ''application/vnd.openxmlformats-officedocument.wordprocessingml.document''"
  shows "snd (handleFileChange env (Some d) s tr) = snd (parseFile env d tr)"
  using docx_accepted [OF assms]
  by (auto simp: handleFileChange_def Let_def split: prod.splits sum.splits)


section \<open>The Scan Heuristic\<close>

text \<open>
  C1. For a PDF whose extraction succeeds, \<^verbatim>\<open>parseFile\<close> classifies the document as scanned
  if and only if the page count is greater than 0 and the word count of the concatenated
  text, tokenised at white space, is less than 50. For a DOCX file the classification is
  false, and \<^verbatim>\<open>handleFileChange\<close> makes no call but reading the file and extracting its
  raw text: nothing is rasterised and nothing is sent to the generation capability.
\<close>

theorem scan_heuristic_classification:
  "(file_type f = ''application/pdf'' \<longrightarrow> arrayBuffer f = Inr bytes \<longrightarrow>
      getDocument env bytes = Inr pdf \<longrightarrow>
      parseFile env f tr = (Inr (text, isScanned), tr') \<longrightarrow>
      isScanned = (0 < numPages pdf \<and> word_count text < 50))
   \<and> (file_type d = ''application/vnd.openxmlformats-officedocument.wordprocessingml.document'' \<longrightarrow>
        (\<forall>v sc tr1. parseFile env d tr = (Inr (v, sc), tr1) \<longrightarrow> \<not> sc)
        \<and> (snd (handleFileChange env (Some d) s tr) = tr @ [ArrayBuffer]
           \<or> snd (handleFileChange env (Some d) s tr) = tr @ [ArrayBuffer, ExtractRawText]))"
proof (intro conjI impI)
  assume "file_type f = ''application/pdf''" "arrayBuffer f = Inr bytes"
    "getDocument env bytes = Inr pdf" "parseFile env f tr = (Inr (text, isScanned), tr')"
  then show "isScanned = (0 < numPages pdf \<and> word_count text < 50)"
    using parseFile_pdf_scanned split_count_lt_50_iff by simp
next
  assume d: "file_type d = ''application/vnd.openxmlformats-officedocument.wordprocessingml.document''"
  show "\<forall>v sc tr1. parseFile env d tr = (Inr (v, sc), tr1) \<longrightarrow> \<not> sc"
    using parseFile_docx [OF d, of env tr] by auto
  show "snd (handleFileChange env (Some d) s tr) = tr @ [ArrayBuffer]
      \<or> snd (handleFileChange env (Some d) s tr) = tr @ [ArrayBuffer, ExtractRawText]"
    using parseFile_docx [OF d, of env tr] handleFileChange_docx_calls [OF d, of env s tr] by auto
qed

theorem scan_heuristic_classification_witness:
  "parseFile (sample_env (Inr \<lparr>pages = [Inr (text_page ''hello world'')]\<rparr>) (Inr None)) pdf_file []
     = (Inr (''hello world'' @ [CHR 0x0A], True), [ArrayBuffer, GetDocument, GetPage 1, GetTextContent 1])
   \<and> 0 < numPages \<lparr>pages = [Inr (text_page ''hello world'')]\<rparr>
   \<and> word_count (''hello world'' @ [CHR 0x0A]) < 50
   \<and> snd (handleFileChange (sample_env (Inr \<lparr>pages = []\<rparr>) (Inr None)) (Some docx_file) idle [])
       = [ArrayBuffer, ExtractRawText]"
proof -
  let ?pdf = "\<lparr>pages = [Inr (text_page ''hello world'')]\<rparr>"
  let ?env = "sample_env (Inr ?pdf) (Inr None)"
  have p: "parseFile ?env pdf_file []
     = (Inr (''hello world'' @ [CHR 0x0A], True), [ArrayBuffer, GetDocument, GetPage 1, GetTextContent 1])"
    by (simp add: parseFile_def sample_env_def pdf_file_def parse_pages.simps numPages_def
        getPage_def text_page_def js_split_ws_def js_trim_def is_space_def)
  have h: "snd (handleFileChange (sample_env (Inr \<lparr>pages = []\<rparr>) (Inr None)) (Some docx_file) idle [])
       = [ArrayBuffer, ExtractRawText]"
    by (simp add: handleFileChange_def parseFile_def sample_env_def docx_file_def acceptedTypes_def
        hfc_finally_def idle_def)
  from scan_heuristic_classification [of pdf_file "[37, 80, 68, 70]" ?env ?pdf "[]"
      "''hello world'' @ [CHR 0x0A]" True "[ArrayBuffer, GetDocument, GetPage 1, GetTextContent 1]"
      docx_file idle] p
  have "0 < numPages ?pdf \<and> word_count (''hello world'' @ [CHR 0x0A]) < 50"
    by (simp add: pdf_file_def sample_env_def)
  with p h show ?thesis by simp
qed

section \<open>Rejection of an unsupported format\<close>

lemma not_accepted_iff:
  "file_type f \<notin> set acceptedTypes \<longleftrightarrow>
   file_type f \<noteq> ''application/pdf'' \<and>
   file_type f \<noteq> ''application/vnd.openxmlformats-officedocument.wordprocessingml.document''"
  by (simp add: acceptedTypes_def)

text \<open>
  C9. A selected file whose declared type is neither PDF nor DOCX is rejected at once with
  the unsupported-format message. The decision looks at the declared type only, whatever
  the content is; the rest of the state is as before and no capability is called: no
  extraction, no classification and no OCR is started.
\<close>

theorem unsupported_format_rejected:
  "file_type f \<noteq> ''application/pdf'' \<Longrightarrow>
   file_type f \<noteq> ''application/vnd.openxmlformats-officedocument.wordprocessingml.document'' \<Longrightarrow>
   handleFileChange env (Some f) s tr =
     (s\<lparr>parsingError := Some ''Invalid file type. Use PDF or DOCX.''\<rparr>, tr)"
  by (simp add: handleFileChange_def not_accepted_iff)

theorem unsupported_format_rejected_witness:
  "file_type text_file \<noteq> ''application/pdf'' \<and>
   file_type text_file \<noteq> ''application/vnd.openxmlformats-officedocument.wordprocessingml.document'' \<and>
   arrayBuffer text_file = arrayBuffer pdf_file \<and>
   handleFileChange (sample_env (Inr \<lparr>pages = []\<rparr>) (Inr None)) (Some text_file) idle [] =
     (idle\<lparr>parsingError := Some ''Invalid file type. Use PDF or DOCX.''\<rparr>, [])"
  using unsupported_format_rejected [of text_file "sample_env (Inr \<lparr>pages = []\<rparr>) (Inr None)" idle "[]"]
  by (simp add: text_file_def pdf_file_def)

text \<open>
  C10. When a file has been ingested, selecting a file of an unsupported declared type sets
  the parsing-error message and nothing else: the selected file, its extracted text and the
  two loading flags stay as they were. \<^verbatim>\<open>handleFileClear\<close> discards them all.
\<close>

theorem unsupported_selection_frame:
  assumes "userCvFile s = Some f0" "userCvText s = t0"
    and "file_type f \<noteq> ''application/pdf''"
    and "file_type f \<noteq> ''application/vnd.openxmlformats-officedocument.wordprocessingml.document''"
  shows "parsingError (fst (handleFileChange env (Some f) s tr)) = Some ''Invalid file type. Use PDF or DOCX.''
       \<and> userCvFile (fst (handleFileChange env (Some f) s tr)) = Some f0
       \<and> userCvText (fst (handleFileChange env (Some f) s tr)) = t0
       \<and> isParsing (fst (handleFileChange env (Some f) s tr)) = isParsing s
       \<and> isScanning (fst (handleFileChange env (Some f) s tr)) = isScanning s
       \<and> userCvFile (handleFileClear s) = None
       \<and> userCvText (handleFileClear s) = []
       \<and> parsingError (handleFileClear s) = None
       \<and> isParsing (handleFileClear s) = False
       \<and> isScanning (handleFileClear s) = False"
  using assms by (simp add: handleFileChange_def not_accepted_iff handleFileClear_def)

theorem unsupported_selection_frame_witness:
  "userCvFile ingested = Some docx_file \<and> userCvText ingested = ''Jane Doe Engineer''
   \<and> parsingError (fst (handleFileChange (sample_env (Inr \<lparr>pages = []\<rparr>) (Inr None)) (Some text_file) ingested []))
       = Some ''Invalid file type. Use PDF or DOCX.''
   \<and> userCvFile (fst (handleFileChange (sample_env (Inr \<lparr>pages = []\<rparr>) (Inr None)) (Some text_file) ingested []))
       = Some docx_file
   \<and> userCvText (fst (handleFileChange (sample_env (Inr \<lparr>pages = []\<rparr>) (Inr None)) (Some text_file) ingested []))
       = ''Jane Doe Engineer''
   \<and> userCvFile (handleFileClear ingested) = None
   \<and> userCvText (handleFileClear ingested) = []"
  using unsupported_selection_frame [of ingested docx_file "''Jane Doe Engineer''" text_file
      "sample_env (Inr \<lparr>pages = []\<rparr>) (Inr None)" "[]"]
  by (simp add: ingested_def text_file_def)


section \<open>Failed attempts\<close>

lemma hfc_catch_clears:
  "userCvText (hfc_catch f e s) = [] \<and> userCvFile (hfc_catch f e s) = None"
  by (simp add: hfc_catch_def Let_def split: option.splits)

lemma hfc_finally_keeps:
  "userCvText (hfc_finally s) = userCvText s \<and> userCvFile (hfc_finally s) = userCvFile s
   \<and> parsingError (hfc_finally s) = parsingError s"
  by (simp add: hfc_finally_def)

lemma hfc_finally_flags: "\<not> isParsing (hfc_finally s) \<and> \<not> isScanning (hfc_finally s)"
  by (simp add: hfc_finally_def)

lemma sample_env_sel:
  "getDocument (sample_env doc gen) bytes = doc"
  "generateContent (sample_env doc gen) req = gen"
  "getContext2d (sample_env doc gen) i = True"
  "JSON_parse (sample_env doc gen) = sample_parse"
  by (simp_all add: sample_env_def)

lemma parseFile_scan_pdf:
  "parseFile (sample_env (Inr scan_pdf) gen) pdf_file [] =
     (Inr (''hello world'' @ [CHR 0x0A], True), [ArrayBuffer, GetDocument, GetPage 1, GetTextContent 1])"
  by (simp add: parseFile_def sample_env_def pdf_file_def parse_pages.simps numPages_def
      getPage_def text_page_def js_split_ws_def js_trim_def is_space_def scan_pdf_def)

lemma ocr_pages_scan_pdf:
  "ocr_pages (sample_env (Inr scan_pdf) gen) scan_pdf 1 (min (numPages scan_pdf) 5) [] tr =
     (Inr [Some ''hello world''],
      tr @ [GetPage 1, GetViewport 1 2, GetContext 1, Render 1 2, ToDataURL 1 ''image/jpeg'' (9 / 10)])"
  by (simp add: ocr_pages.simps sample_env_def numPages_def getPage_def text_page_def scan_pdf_def
      js_split_char_def js_index_def)

lemma performOcr_scan_pdf:
  "performOcrOnPdf (sample_env (Inr scan_pdf) gen) pdf_file tr =
     (case gen of Inr t \<Rightarrow> Inr t | Inl e \<Rightarrow> Inl (ocr_catch e),
      tr @ [ArrayBuffer, GetDocument, GetPage 1, GetViewport 1 2, GetContext 1, Render 1 2,
            ToDataURL 1 ''image/jpeg'' (9 / 10), GenerateContent (ocr_request [Some ''hello world''])])"
  by (cases gen)
    (simp_all add: performOcrOnPdf_def pdf_file_def sample_env_sel ocr_pages_scan_pdf
      extractTextFromImagesWithGemini_def del: One_nat_def)

text \<open>
  C4. When an attempt on an accepted file fails, in the extraction or in the OCR branch
  (the rasterisation or the generation call fails, or the OCR text is missing, empty or
  white space only), the exposed CV text is empty afterwards, the file is cleared and both
  loading flags are off. The text layer extracted before the OCR branch is not exposed.
\<close>

theorem failed_ingestion_discards_text:
  assumes "file_type f = ''application/pdf'' \<or>
     file_type f = ''application/vnd.openxmlformats-officedocument.wordprocessingml.document''"
    and "(\<exists>e tr1. parseFile env f tr = (Inl e, tr1))
       \<or> (\<exists>t tr1 e tr2. file_type f = ''application/pdf'' \<and>
             parseFile env f tr = (Inr (t, True), tr1) \<and>
             performOcrOnPdf env f tr1 = (Inl e, tr2))
       \<or> (\<exists>t tr1 ocrText tr2. file_type f = ''application/pdf'' \<and>
             parseFile env f tr = (Inr (t, True), tr1) \<and>
             performOcrOnPdf env f tr1 = (Inr ocrText, tr2) \<and>
             (ocrText = None \<or> js_trim (the ocrText) = []))"
  shows "userCvText (fst (handleFileChange env (Some f) s tr)) = []
       \<and> userCvFile (fst (handleFileChange env (Some f) s tr)) = None
       \<and> \<not> isParsing (fst (handleFileChange env (Some f) s tr))
       \<and> \<not> isScanning (fst (handleFileChange env (Some f) s tr))"
proof -
  from assms(1) have acc: "file_type f \<in> set acceptedTypes"
    by (auto simp: acceptedTypes_def)
  have nt: "\<And>ocrText. ocrText = None \<or> js_trim (the ocrText) = [] \<Longrightarrow> ocr_no_text ocrText"
    by (auto simp: ocr_no_text_def split: option.splits)
  show ?thesis
    using acc nt assms(2)
    by (auto simp: handleFileChange_def Let_def hfc_catch_clears hfc_finally_keeps hfc_finally_flags)
qed

theorem failed_ingestion_discards_text_witness:
  "userCvText (fst (handleFileChange (sample_env (Inl password_exception) (Inr None)) (Some pdf_file) ingested [])) = []
   \<and> userCvText (fst (handleFileChange (sample_env (Inr scan_pdf) (Inl network_error)) (Some pdf_file) ingested [])) = []
   \<and> userCvText (fst (handleFileChange (sample_env (Inr scan_pdf) (Inr (Some ''  ''))) (Some pdf_file) ingested [])) = []
   \<and> userCvText ingested = ''Jane Doe Engineer''
   \<and> fst (parseFile (sample_env (Inr scan_pdf) (Inr (Some ''  ''))) pdf_file []) =
        Inr (''hello world'' @ [CHR 0x0A], True)"
proof -
  have ft: "file_type pdf_file = ''application/pdf''"
    by (simp add: pdf_file_def)
  have p1: "parseFile (sample_env (Inl password_exception) (Inr None)) pdf_file [] =
      (Inl password_exception, [ArrayBuffer, GetDocument])"
    by (simp add: parseFile_def sample_env_def pdf_file_def)
  have o2: "performOcrOnPdf (sample_env (Inr scan_pdf) (Inl network_error)) pdf_file
              [ArrayBuffer, GetDocument, GetPage 1, GetTextContent 1] =
      (Inl (ocr_catch network_error),
       [ArrayBuffer, GetDocument, GetPage 1, GetTextContent 1] @
       [ArrayBuffer, GetDocument, GetPage 1, GetViewport 1 2, GetContext 1, Render 1 2,
        ToDataURL 1 ''image/jpeg'' (9 / 10), GenerateContent (ocr_request [Some ''hello world''])])"
    by (simp add: performOcr_scan_pdf)
  have o3: "performOcrOnPdf (sample_env (Inr scan_pdf) (Inr (Some ''  ''))) pdf_file
              [ArrayBuffer, GetDocument, GetPage 1, GetTextContent 1] =
      (Inr (Some ''  ''),
       [ArrayBuffer, GetDocument, GetPage 1, GetTextContent 1] @
       [ArrayBuffer, GetDocument, GetPage 1, GetViewport 1 2, GetContext 1, Render 1 2,
        ToDataURL 1 ''image/jpeg'' (9 / 10), GenerateContent (ocr_request [Some ''hello world''])])"
    by (simp add: performOcr_scan_pdf)
  have blank: "js_trim ''  '' = []"
    by (simp add: js_trim_def is_space_def)
  have a: "userCvText (fst (handleFileChange (sample_env (Inl password_exception) (Inr None)) (Some pdf_file) ingested [])) = []"
    using failed_ingestion_discards_text [of pdf_file "sample_env (Inl password_exception) (Inr None)" "[]" ingested]
      ft p1 by simp
  have b: "userCvText (fst (handleFileChange (sample_env (Inr scan_pdf) (Inl network_error)) (Some pdf_file) ingested [])) = []"
    using failed_ingestion_discards_text [of pdf_file "sample_env (Inr scan_pdf) (Inl network_error)" "[]" ingested]
      ft parseFile_scan_pdf [of "Inl network_error"] o2 by simp
  have c: "userCvText (fst (handleFileChange (sample_env (Inr scan_pdf) (Inr (Some ''  ''))) (Some pdf_file) ingested [])) = []"
    using failed_ingestion_discards_text [of pdf_file "sample_env (Inr scan_pdf) (Inr (Some ''  ''))" "[]" ingested]
      ft parseFile_scan_pdf [of "Inr (Some ''  '')"] o3 blank by simp
  from a b c parseFile_scan_pdf [of "Inr (Some ''  '')"] show ?thesis by (simp add: ingested_def)
qed


section \<open>Errors of the OCR branch\<close>

lemma ocr_catch_cases:
  "ocr_catch e = type_error
   \<or> ocr_catch e = new_Error ''The API key is invalid. Please check your configuration.''
   \<or> ocr_catch e = new_Error ''Failed to extract text from the document image using AI.''"
  by (simp add: ocr_catch_def split: option.splits)

lemma hfc_catch_no_text:
  "parsingError (hfc_catch f (new_Error ''AI OCR returned no text.'') s) =
     Some ''AI could not read any text from this document.''"
  by (simp add: hfc_catch_def new_Error_def)

lemma hfc_catch_extract_failed:
  "parsingError (hfc_catch f (new_Error ''Failed to extract text from the document image using AI.'') s) =
     Some ''AI-powered text extraction failed. The document might be unreadable or a network issue occurred.''"
  by (simp add: hfc_catch_def new_Error_def)

lemma hfc_catch_api_key:
  "file_type f = ''application/pdf'' \<Longrightarrow>
   parsingError (hfc_catch f (new_Error ''The API key is invalid. Please check your configuration.'') s) =
     Some ''Failed to read the contents of this file.''"
  by (simp add: hfc_catch_def new_Error_def instanceof_Error_def)

lemma hfc_catch_type_error:
  "file_type f = ''application/pdf'' \<Longrightarrow>
   parsingError (hfc_catch f type_error s) = Some ''Failed to read the contents of this file.''"
  by (simp add: hfc_catch_def type_error_def instanceof_Error_def)

lemma hfc_catch_ocr_catch:
  assumes "file_type f = ''application/pdf''"
  shows "parsingError (hfc_catch f (ocr_catch e) s) =
           Some ''AI-powered text extraction failed. The document might be unreadable or a network issue occurred.''
       \<or> parsingError (hfc_catch f (ocr_catch e) s) = Some ''Failed to read the contents of this file.''"
  using ocr_catch_cases [of e] hfc_catch_extract_failed [of f s]
    hfc_catch_api_key [OF assms, of s] hfc_catch_type_error [OF assms, of s]
  by auto

lemma performOcr_generation_fails:
  assumes "arrayBuffer f = Inr bytes" "getDocument env bytes = Inr pdf"
    "ocr_pages env pdf 1 (min (numPages pdf) 5) [] (tr @ [ArrayBuffer, GetDocument]) = (Inr imgs, tr')"
    "imgs \<noteq> []" "generateContent env (ocr_request imgs) = Inl e"
  shows "performOcrOnPdf env f tr = (Inl (ocr_catch e), tr' @ [GenerateContent (ocr_request imgs)])"
  using assms
  by (simp add: performOcrOnPdf_def extractTextFromImagesWithGemini_def del: One_nat_def)

lemma handleFileChange_scanned:
  assumes "file_type f = ''application/pdf''" "parseFile env f tr = (Inr (t, True), tr1)"
  shows "fst (handleFileChange env (Some f) s tr) =
           hfc_ocr_done f (fst (performOcrOnPdf env f tr1))
             (s\<lparr>userCvFile := Some f, userCvText := [], parsingError := None,
                isParsing := False, isScanning := True\<rparr>)"
  using assms
  by (simp add: handleFileChange_def acceptedTypes_def Let_def hfc_ocr_done_def
      split: prod.splits sum.splits)

text \<open>
  C8. On a scanned PDF, when the OCR text is missing, empty or white space only, the attempt
  ends with the message that the AI could not read any text. When the generation call
  itself fails, the attempt ends with one of two other messages, so the two failures are
  told apart.
\<close>

theorem ocr_no_text_error_distinct:
  assumes "file_type f = ''application/pdf''" "parseFile env f tr = (Inr (t, True), tr1)"
  shows
    "(\<forall>ocrText tr2. performOcrOnPdf env f tr1 = (Inr ocrText, tr2) \<and>
        (ocrText = None \<or> js_trim (the ocrText) = []) \<longrightarrow>
        parsingError (fst (handleFileChange env (Some f) s tr)) =
          Some ''AI could not read any text from this document.'')
   \<and> (\<forall>bytes pdf imgs tr' e. arrayBuffer f = Inr bytes \<and> getDocument env bytes = Inr pdf \<and>
        ocr_pages env pdf 1 (min (numPages pdf) 5) [] (tr1 @ [ArrayBuffer, GetDocument]) = (Inr imgs, tr') \<and>
        imgs \<noteq> [] \<and> generateContent env (ocr_request imgs) = Inl e \<longrightarrow>
        (parsingError (fst (handleFileChange env (Some f) s tr)) =
           Some ''AI-powered text extraction failed. The document might be unreadable or a network issue occurred.''
         \<or> parsingError (fst (handleFileChange env (Some f) s tr)) =
           Some ''Failed to read the contents of this file.'')
        \<and> parsingError (fst (handleFileChange env (Some f) s tr)) \<noteq>
           Some ''AI could not read any text from this document.'')"
proof (intro conjI allI impI)
  fix ocrText tr2
  assume "performOcrOnPdf env f tr1 = (Inr ocrText, tr2) \<and> (ocrText = None \<or> js_trim (the ocrText) = [])"
  moreover from this have "ocr_no_text ocrText"
    by (auto simp: ocr_no_text_def split: option.splits)
  ultimately show "parsingError (fst (handleFileChange env (Some f) s tr)) =
      Some ''AI could not read any text from this document.''"
    by (simp add: handleFileChange_scanned [OF assms] hfc_ocr_done_def hfc_finally_keeps
        hfc_catch_no_text)
next
  fix bytes pdf imgs tr' e
  assume h: "arrayBuffer f = Inr bytes \<and> getDocument env bytes = Inr pdf \<and>
        ocr_pages env pdf 1 (min (numPages pdf) 5) [] (tr1 @ [ArrayBuffer, GetDocument]) = (Inr imgs, tr') \<and>
        imgs \<noteq> [] \<and> generateContent env (ocr_request imgs) = Inl e"
  then have "performOcrOnPdf env f tr1 = (Inl (ocr_catch e), tr' @ [GenerateContent (ocr_request imgs)])"
    using performOcr_generation_fails by blast
  then have eq: "parsingError (fst (handleFileChange env (Some f) s tr)) =
      parsingError (hfc_catch f (ocr_catch e)
        (s\<lparr>userCvFile := Some f, userCvText := [], parsingError := None,
           isParsing := False, isScanning := True\<rparr>))"
    by (simp add: handleFileChange_scanned [OF assms] hfc_ocr_done_def hfc_finally_keeps)
  show "parsingError (fst (handleFileChange env (Some f) s tr)) =
           Some ''AI-powered text extraction failed. The document might be unreadable or a network issue occurred.''
         \<or> parsingError (fst (handleFileChange env (Some f) s tr)) =
           Some ''Failed to read the contents of this file.''"
    unfolding eq by (rule hfc_catch_ocr_catch [OF assms(1)])
  then show "parsingError (fst (handleFileChange env (Some f) s tr)) \<noteq>
           Some ''AI could not read any text from this document.''"
    by auto
qed

theorem ocr_no_text_error_distinct_witness:
  "parsingError (fst (handleFileChange (sample_env (Inr scan_pdf) (Inr (Some ''  ''))) (Some pdf_file) idle []))
     = Some ''AI could not read any text from this document.''
   \<and> parsingError (fst (handleFileChange (sample_env (Inr scan_pdf) (Inl network_error)) (Some pdf_file) idle []))
     = Some ''AI-powered text extraction failed. The document might be unreadable or a network issue occurred.''"
proof -
  have ft: "file_type pdf_file = ''application/pdf''" "arrayBuffer pdf_file = Inr [37, 80, 68, 70]"
    by (simp_all add: pdf_file_def)
  have blank: "js_trim ''  '' = []"
    by (simp add: js_trim_def is_space_def)
  have a: "parsingError (fst (handleFileChange (sample_env (Inr scan_pdf) (Inr (Some ''  ''))) (Some pdf_file) idle []))
     = Some ''AI could not read any text from this document.''"
    using ocr_no_text_error_distinct [OF ft(1) parseFile_scan_pdf, of "Inr (Some ''  '')" idle]
      performOcr_scan_pdf [of "Inr (Some ''  '')" "[ArrayBuffer, GetDocument, GetPage 1, GetTextContent 1]"]
      blank
    by simp
  have "parsingError (fst (handleFileChange (sample_env (Inr scan_pdf) (Inl network_error)) (Some pdf_file) idle []))
       = Some ''AI-powered text extraction failed. The document might be unreadable or a network issue occurred.''
     \<or> parsingError (fst (handleFileChange (sample_env (Inr scan_pdf) (Inl network_error)) (Some pdf_file) idle []))
       = Some ''Failed to read the contents of this file.''"
    using ocr_no_text_error_distinct [OF ft(1) parseFile_scan_pdf, of "Inl network_error" idle]
      ft(2) ocr_pages_scan_pdf [of "Inl network_error" "[ArrayBuffer, GetDocument, GetPage 1, GetTextContent 1] @ [ArrayBuffer, GetDocument]"]
    by (simp add: sample_env_sel del: One_nat_def)
  moreover have "parsingError (fst (handleFileChange (sample_env (Inr scan_pdf) (Inl network_error)) (Some pdf_file) idle []))
       \<noteq> Some ''Failed to read the contents of this file.''"
    by (simp add: handleFileChange_scanned [OF ft(1) parseFile_scan_pdf] performOcr_scan_pdf
        hfc_ocr_done_def hfc_finally_keeps ocr_catch_def network_error_def instanceof_Error_def
        hfc_catch_extract_failed)
  ultimately show ?thesis using a by simp
qed


section \<open>The OCR Requester\<close>

text \<open>
  C6. \<^verbatim>\<open>extractTextFromImagesWithGemini\<close> makes exactly one generation call, whose parts are
  the fixed OCR instruction followed by all page images in the order given, and on success
  it returns the text of the response as it is.
\<close>

theorem ocr_requester_single_call:
  "snd (extractTextFromImagesWithGemini env imgs tr) =
     tr @ [GenerateContent
             \<lparr>model = ''gemini-2.5-flash'',
              contents = Parts (TextPart ocr_prompt # map (\<lambda>img. InlineData img ''image/jpeg'') imgs),
              config = None\<rparr>]
   \<and> (\<forall>t. imgs \<noteq> [] \<and> generateContent env (ocr_request imgs) = Inr t \<longrightarrow>
          fst (extractTextFromImagesWithGemini env imgs tr) = Inr t)"
  by (simp add: extractTextFromImagesWithGemini_def ocr_request_def split: sum.splits)

theorem ocr_requester_single_call_witness:
  "extractTextFromImagesWithGemini (sample_env (Inr scan_pdf) (Inr (Some ''Jane Doe''))) [Some ''AAAA'', Some ''BBBB''] [] =
     (Inr (Some ''Jane Doe''),
      [GenerateContent
         \<lparr>model = ''gemini-2.5-flash'',
          contents = Parts [TextPart ocr_prompt, InlineData (Some ''AAAA'') ''image/jpeg'',
                            InlineData (Some ''BBBB'') ''image/jpeg''],
          config = None\<rparr>])"
  using ocr_requester_single_call [of "sample_env (Inr scan_pdf) (Inr (Some ''Jane Doe''))"
      "[Some ''AAAA'', Some ''BBBB'']" "[]"]
  by (simp add: sample_env_sel prod_eq_iff)

text \<open>
  C7, as amended. \<^verbatim>\<open>extractTextFromImagesWithGemini\<close> has no check of its own for the empty
  sequence: it makes one generation call that carries the instruction alone and returns
  its outcome. The empty sequence is rejected by the caller: \<^verbatim>\<open>performOcrOnPdf\<close> raises its
  could-not-convert error when no page image was made, and does not call the OCR Requester.
\<close>

theorem empty_images_rejected_by_caller:
  "extractTextFromImagesWithGemini env [] tr =
     (case generateContent env (ocr_request []) of
        Inr t \<Rightarrow> Inr t
      | Inl e \<Rightarrow> Inl (ocr_catch e),
      tr @ [GenerateContent (ocr_request [])])
   \<and> contents (ocr_request []) = Parts [TextPart ocr_prompt]
   \<and> (arrayBuffer f = Inr bytes \<longrightarrow> getDocument env bytes = Inr pdf \<longrightarrow>
        ocr_pages env pdf 1 (min (numPages pdf) 5) [] (tr @ [ArrayBuffer, GetDocument]) = (Inr [], tr') \<longrightarrow>
        performOcrOnPdf env f tr =
          (Inl (new_Error ''Could not convert PDF pages to images for OCR.''), tr'))"
  by (simp add: extractTextFromImagesWithGemini_def ocr_request_def performOcrOnPdf_def
      split: sum.splits del: One_nat_def)

theorem empty_images_rejected_by_caller_witness:
  "arrayBuffer pdf_file = Inr [37, 80, 68, 70]
   \<and> getDocument (sample_env (Inr \<lparr>pages = []\<rparr>) (Inr (Some ''Jane Doe''))) [37, 80, 68, 70] = Inr \<lparr>pages = []\<rparr>
   \<and> performOcrOnPdf (sample_env (Inr \<lparr>pages = []\<rparr>) (Inr (Some ''Jane Doe''))) pdf_file [] =
       (Inl (new_Error ''Could not convert PDF pages to images for OCR.''), [ArrayBuffer, GetDocument])"
proof -
  let ?env = "sample_env (Inr \<lparr>pages = []\<rparr>) (Inr (Some ''Jane Doe''))"
  have a: "arrayBuffer pdf_file = Inr [37, 80, 68, 70]"
    by (simp add: pdf_file_def)
  have g: "getDocument ?env [37, 80, 68, 70] = Inr \<lparr>pages = []\<rparr>"
    by (simp add: sample_env_sel)
  have l: "ocr_pages ?env \<lparr>pages = []\<rparr> 1 (min (numPages \<lparr>pages = []\<rparr>) 5) [] ([] @ [ArrayBuffer, GetDocument]) =
      (Inr [], [ArrayBuffer, GetDocument])"
    by (simp add: ocr_pages.simps numPages_def)
  from empty_images_rejected_by_caller [of ?env "[]" pdf_file "[37, 80, 68, 70]" "\<lparr>pages = []\<rparr>"
      "[ArrayBuffer, GetDocument]"] a g l
  show ?thesis by simp
qed

text \<open>
  C7 as stated fails: called with the empty sequence, the OCR Requester calls the generation
  capability and returns its text.
\<close>

theorem ocr_requester_accepts_empty:
  "fst (extractTextFromImagesWithGemini (sample_env (Inr scan_pdf) (Inr (Some ''Jane Doe''))) [] []) =
     Inr (Some ''Jane Doe'')
   \<and> snd (extractTextFromImagesWithGemini (sample_env (Inr scan_pdf) (Inr (Some ''Jane Doe''))) [] []) =
     [GenerateContent
        \<lparr>model = ''gemini-2.5-flash'', contents = Parts [TextPart ocr_prompt], config = None\<rparr>]"
  by (simp add: extractTextFromImagesWithGemini_def ocr_request_def sample_env_sel)

section \<open>The Page Rasterizer\<close>

lemma split_char_from_no_sep:
  "sep \<notin> set b \<Longrightarrow> split_char_from sep cur b = [cur @ b]"
  by (induction b arbitrary: cur) auto

lemma split_char_from_first_sep:
  "sep \<notin> set pre \<Longrightarrow>
   split_char_from sep cur (pre @ sep # rest) = (cur @ pre) # split_char_from sep [] rest"
  by (induction pre arbitrary: cur) auto

lemma data_url_payload:
  "CHR '','' \<notin> set pre \<Longrightarrow> CHR '','' \<notin> set b \<Longrightarrow>
   js_index (js_split_char CHR '','' (pre @ CHR '','' # b)) 1 = Some b"
  by (simp add: js_split_char_def split_char_from_first_sep split_char_from_no_sep js_index_def)

text \<open>
  The loop of \<^verbatim>\<open>performOcrOnPdf\<close> from page \<open>i\<close> on, when every page loads and
  renders: the images and the calls it adds.
\<close>

lemma ocr_pages_run:
  assumes "\<forall>j. i \<le> j \<and> j \<le> m \<longrightarrow>
             getPage pdf j = Inr (pg j) \<and> (getContext2d env j \<longrightarrow> render (pg j) 2 = None)"
  shows "ocr_pages env pdf i m imgs tr =
           (Inr (imgs @ map (\<lambda>j. js_index (js_split_char CHR '','' (toDataURL (pg j) 2 ''image/jpeg'' (9 / 10))) 1)
                         (filter (getContext2d env) [i..<Suc m])),
            tr @ concat (map (\<lambda>j. [GetPage j, GetViewport j 2, GetContext j] @
                                    (if getContext2d env j
                                     then [Render j 2, ToDataURL j ''image/jpeg'' (9 / 10)] else []))
                             [i..<Suc m]))"
  using assms
proof (induction env pdf i m imgs tr rule: ocr_pages.induct)
  case (1 env pdf i m imgs tr)
  show ?case
  proof (cases "i \<le> m")
    case False
    then show ?thesis
      by (simp add: ocr_pages.simps [of env pdf i m])
  next
    case True
    from True 1(3) have pg: "getPage pdf i = Inr (pg i)"
      and rd: "getContext2d env i \<Longrightarrow> render (pg i) 2 = None"
      by auto
    have rest: "\<forall>j. i + 1 \<le> j \<and> j \<le> m \<longrightarrow>
        getPage pdf j = Inr (pg j) \<and> (getContext2d env j \<longrightarrow> render (pg j) 2 = None)"
      using 1(3) by auto
    have upt: "[i..<Suc m] = i # [i + 1..<Suc m]"
      using True by (simp add: upt_conv_Cons)
    show ?thesis
    proof (cases "getContext2d env i")
      case ctx: True
      from 1(1) [OF True pg ctx rd [OF ctx] rest] True pg ctx rd [OF ctx] upt
      show ?thesis
        by (simp add: ocr_pages.simps [of env pdf i m])
    next
      case ctx: False
      from 1(2) [OF True pg ctx rest] True pg ctx upt
      show ?thesis
        by (simp add: ocr_pages.simps [of env pdf i m])
    qed
  qed
qed

text \<open>
  C5. For a PDF that opens, whose pages load and render, \<^verbatim>\<open>performOcrOnPdf\<close> visits exactly
  the pages 1 to min(pageCount, 5), in this order. Each one gets a viewport of scale 2.0;
  each one whose canvas gives a 2D context is rendered and encoded as JPEG at quality 0.9,
  and the image kept is the data URL after its prefix, up to and including the comma, is
  cut off. When no image results, the function fails with its could-not-convert error and
  the OCR Requester is not called; otherwise the images go to the OCR Requester.
\<close>

theorem page_rasterizer_pages:
  assumes "arrayBuffer f = Inr bytes" "getDocument env bytes = Inr pdf"
    and "\<forall>j. 1 \<le> j \<and> j \<le> min (numPages pdf) 5 \<longrightarrow>
           getPage pdf j = Inr (pg j) \<and> (getContext2d env j \<longrightarrow> render (pg j) 2 = None)"
  shows
    "(let processed = [1..<Suc (min (numPages pdf) 5)];
          images = map (\<lambda>j. js_index (js_split_char CHR '','' (toDataURL (pg j) 2 ''image/jpeg'' (9 / 10))) 1)
                       (filter (getContext2d env) processed);
          page_calls = concat (map (\<lambda>j. [GetPage j, GetViewport j 2, GetContext j] @
                                      (if getContext2d env j
                                       then [Render j 2, ToDataURL j ''image/jpeg'' (9 / 10)] else []))
                                   processed)
      in ocr_pages env pdf 1 (min (numPages pdf) 5) [] (tr @ [ArrayBuffer, GetDocument]) =
           (Inr images, tr @ [ArrayBuffer, GetDocument] @ page_calls)
         \<and> performOcrOnPdf env f tr =
             (if images = []
              then (Inl (new_Error ''Could not convert PDF pages to images for OCR.''),
                    tr @ [ArrayBuffer, GetDocument] @ page_calls)
              else extractTextFromImagesWithGemini env images (tr @ [ArrayBuffer, GetDocument] @ page_calls)))
     \<and> (\<forall>pre b. CHR '','' \<notin> set pre \<and> CHR '','' \<notin> set b \<longrightarrow>
           js_index (js_split_char CHR '','' (pre @ CHR '','' # b)) 1 = Some b)"
proof -
  have loop: "ocr_pages env pdf 1 (min (numPages pdf) 5) [] (tr @ [ArrayBuffer, GetDocument]) =
      (Inr ([] @ map (\<lambda>j. js_index (js_split_char CHR '','' (toDataURL (pg j) 2 ''image/jpeg'' (9 / 10))) 1)
                    (filter (getContext2d env) [1..<Suc (min (numPages pdf) 5)])),
       (tr @ [ArrayBuffer, GetDocument]) @
         concat (map (\<lambda>j. [GetPage j, GetViewport j 2, GetContext j] @
                            (if getContext2d env j
                             then [Render j 2, ToDataURL j ''image/jpeg'' (9 / 10)] else []))
                     [1..<Suc (min (numPages pdf) 5)]))"
    using assms(3) by (rule ocr_pages_run)
  show ?thesis
    using assms(1,2) loop
    by (simp add: performOcrOnPdf_def Let_def data_url_payload del: One_nat_def)
qed

lemma getPage_twelve:
  "1 \<le> j \<Longrightarrow> j \<le> 12 \<Longrightarrow>
   getPage twelve_pages j =
     Inr (text_page ([''p1'', ''p2'', ''p3'', ''p4'', ''p5'', ''p6'', ''p7'', ''p8'', ''p9'', ''p10'', ''p11'', ''p12''] ! (j - 1)))"
  unfolding getPage_def twelve_pages_def
  by (simp del: list.map add: nth_map)

theorem page_rasterizer_pages_witness:
  "numPages twelve_pages = 12
   \<and> fst (ocr_pages (sample_env (Inr twelve_pages) (Inr (Some ''Jane Doe''))) twelve_pages 1
            (min (numPages twelve_pages) 5) [] ([] @ [ArrayBuffer, GetDocument])) =
       Inr [Some ''p1'', Some ''p2'', Some ''p3'', Some ''p4'', Some ''p5'']
   \<and> fst (performOcrOnPdf (sample_env (Inr twelve_pages) (Inr (Some ''Jane Doe''))) pdf_file []) =
       Inr (Some ''Jane Doe'')
   \<and> performOcrOnPdf (sample_env (Inr \<lparr>pages = []\<rparr>) (Inr (Some ''Jane Doe''))) pdf_file [] =
       (Inl (new_Error ''Could not convert PDF pages to images for OCR.''), [ArrayBuffer, GetDocument])
   \<and> js_index (js_split_char CHR '','' (''data:image/jpeg;base64'' @ CHR '','' # ''AAAA'')) 1 = Some ''AAAA''"
proof -
  let ?env = "sample_env (Inr twelve_pages) (Inr (Some ''Jane Doe''))"
  let ?pg = "\<lambda>j. text_page ([''p1'', ''p2'', ''p3'', ''p4'', ''p5'', ''p6'', ''p7'', ''p8'', ''p9'', ''p10'', ''p11'', ''p12''] ! (j - 1))"
  have n: "numPages twelve_pages = 12"
    by (simp add: numPages_def twelve_pages_def)
  have a: "arrayBuffer pdf_file = Inr [37, 80, 68, 70]"
    by (simp add: pdf_file_def)
  have g: "getDocument ?env [37, 80, 68, 70] = Inr twelve_pages"
    by (simp add: sample_env_sel)
  have h: "\<forall>j. 1 \<le> j \<and> j \<le> min (numPages twelve_pages) 5 \<longrightarrow>
      getPage twelve_pages j = Inr (?pg j) \<and> (getContext2d ?env j \<longrightarrow> render (?pg j) 2 = None)"
    by (simp add: n getPage_twelve text_page_def)
  have u: "[1..<6] = [1, 2, 3, 4, 5::nat]"
    by (simp add: upt_rec)
  note t = page_rasterizer_pages [OF a g h, of "[]"]
  have i: "fst (ocr_pages ?env twelve_pages 1 (min (numPages twelve_pages) 5) [] ([] @ [ArrayBuffer, GetDocument])) =
       Inr [Some ''p1'', Some ''p2'', Some ''p3'', Some ''p4'', Some ''p5'']"
    using t
    by (simp add: Let_def n u sample_env_sel text_page_def js_split_char_def js_index_def
        del: One_nat_def)
  have p: "fst (performOcrOnPdf ?env pdf_file []) = Inr (Some ''Jane Doe'')"
    using t
    by (simp add: Let_def n u sample_env_sel extractTextFromImagesWithGemini_def del: One_nat_def)
  have d: "js_index (js_split_char CHR '','' (''data:image/jpeg;base64'' @ CHR '','' # ''AAAA'')) 1 = Some ''AAAA''"
    using conjunct2 [OF t, rule_format, of "''data:image/jpeg;base64''" "''AAAA''"] by simp
  have e: "performOcrOnPdf (sample_env (Inr \<lparr>pages = []\<rparr>) (Inr (Some ''Jane Doe''))) pdf_file [] =
       (Inl (new_Error ''Could not convert PDF pages to images for OCR.''), [ArrayBuffer, GetDocument])"
    using page_rasterizer_pages [of pdf_file "[37, 80, 68, 70]"
        "sample_env (Inr \<lparr>pages = []\<rparr>) (Inr (Some ''Jane Doe''))" "\<lparr>pages = []\<rparr>" ?pg "[]"] a
    by (simp add: sample_env_sel numPages_def Let_def)
  from n i p e d show ?thesis by simp
qed


section \<open>The CV Optimization Requester\<close>

text \<open>
  C2. A payload that is well-formed JSON but lacks required fields of \<^verbatim>\<open>CvData\<close> is
  returned as the result of \<^verbatim>\<open>optimizeCvWithGemini\<close>: the parsed value is not checked
  against the schema, so this input does not end in the invalid-format error.
\<close>

theorem optimize_returns_nonconforming:
  \<open>fst (optimizeCvWithGemini (sample_env (Inr \<lparr>pages = []\<rparr>) (Inr (Some ''{"fullName":"Ada"}'')))
          ''Jane Doe Engineer'' ''Engineer wanted'' []) =
     Inr (JObject [(''fullName'', JString ''Ada'')])
   \<and> \<not> conforms_CvData (JObject [(''fullName'', JString ''Ada'')])\<close>
  by (simp add: optimizeCvWithGemini_def sample_env_sel sample_parse_def js_trim_def is_space_def
      conforms_CvData_def has_string_def)


section \<open>Two attempts in flight\<close>

lemma parse_pages_fst:
  "\<forall>tr0. fst (parse_pages pdf i t tr) = fst (parse_pages pdf i t tr0)"
proof (induction pdf i t tr rule: parse_pages.induct)
  case (1 pdf i textContent tr)
  show ?case
  proof
    fix tr0
    show "fst (parse_pages pdf i textContent tr) = fst (parse_pages pdf i textContent tr0)"
    proof (cases "i \<le> numPages pdf")
      case False
      then show ?thesis
        by (simp add: parse_pages.simps [of pdf i])
    next
      case True
      show ?thesis
      proof (cases "getPage pdf i")
        case (Inl e)
        with True show ?thesis
          by (simp add: parse_pages.simps [of pdf i])
      next
        case (Inr page)
        show ?thesis
        proof (cases "getTextContent page")
          case (Inl e)
          with True Inr show ?thesis
            by (simp add: parse_pages.simps [of pdf i])
        next
          case items: (Inr items)
          from 1 [OF True Inr items] True Inr items show ?thesis
            by (simp add: parse_pages.simps [of pdf i])
        qed
      qed
    qed
  qed
qed

lemma parseFile_fst: "fst (parseFile env f tr) = fst (parseFile env f tr0)"
proof (cases "file_type f = ''application/pdf''")
  case False
  then show ?thesis
    by (simp add: parseFile_def split: sum.splits)
next
  case pdf: True
  show ?thesis
  proof (cases "arrayBuffer f")
    case (Inl e)
    with pdf show ?thesis by (simp add: parseFile_def)
  next
    case bytes: (Inr bytes)
    show ?thesis
    proof (cases "getDocument env bytes")
      case (Inl e)
      with pdf bytes show ?thesis by (simp add: parseFile_def)
    next
      case doc: (Inr doc)
      obtain r tr1 where a: "parse_pages doc 1 [] (tr @ [ArrayBuffer, GetDocument]) = (r, tr1)"
        by (cases "parse_pages doc 1 [] (tr @ [ArrayBuffer, GetDocument])")
      obtain r0 tr2 where b: "parse_pages doc 1 [] (tr0 @ [ArrayBuffer, GetDocument]) = (r0, tr2)"
        by (cases "parse_pages doc 1 [] (tr0 @ [ArrayBuffer, GetDocument])")
      from a b have "r = r0"
        using parse_pages_fst [of doc 1 "[]" "tr @ [ArrayBuffer, GetDocument]"]
        by (metis fst_conv)
      with pdf bytes doc a b show ?thesis
        by (cases r0) (simp_all add: parseFile_def del: One_nat_def)
    qed
  qed
qed

lemma parseFile_at:
  "fst (parseFile env f []) = r \<Longrightarrow> \<exists>tr'. parseFile env f tr = (r, tr')"
  using parseFile_fst [of env f tr "[]"] by (cases "parseFile env f tr") auto

lemma accepted_select:
  "file_type f \<in> set acceptedTypes \<Longrightarrow>
   hfc_select f s =
     (s\<lparr>userCvFile := Some f, userCvText := [], parsingError := None,
        isParsing := True, isScanning := False\<rparr>, AwaitParseFile)"
  by (simp add: hfc_select_def)

lemma hfc_parsed_text:
  "hfc_parsed f (Inr (t, False)) s = (hfc_finally (s\<lparr>userCvText := t\<rparr>), Settled)"
  by (simp add: hfc_parsed_def)

text \<open>
  One attempt resumed twice with nothing in between is \<^verbatim>\<open>handleFileChange\<close> run to its
  end.
\<close>

lemma run_is_handleFileChange:
  "app (run env [Select f, Resume 0, Resume 0] \<lparr>app = s, calls = tr, attempts = []\<rparr>) =
     fst (handleFileChange env (Some f) s tr)
   \<and> calls (run env [Select f, Resume 0, Resume 0] \<lparr>app = s, calls = tr, attempts = []\<rparr>) =
     snd (handleFileChange env (Some f) s tr)"
  by (auto simp: step_def hfc_select_def hfc_parsed_def hfc_ocr_done_def handleFileChange_def Let_def
      split: prod.splits sum.splits)

text \<open>
  C3, as amended. Two accepted files are selected one after the other, the second while the
  first attempt still waits for \<^verbatim>\<open>parseFile\<close>; both extractions succeed without OCR. In
  the final state the selected file is the second one, no error is set, and the text is that
  of the attempt that resumes last: the first file's text when the stale attempt resumes after the newer
  one, the second file's text in the other order. No attempt carries a token.
\<close>

theorem last_resumed_attempt_wins:
  assumes "file_type f1 \<in> set acceptedTypes" "file_type f2 \<in> set acceptedTypes"
    and "fst (parseFile env f1 []) = Inr (t1, False)"
    and "fst (parseFile env f2 []) = Inr (t2, False)"
  shows "userCvText (app (run env [Select f1, Select f2, Resume 1, Resume 0]
                            \<lparr>app = s, calls = tr, attempts = []\<rparr>)) = t1
       \<and> userCvFile (app (run env [Select f1, Select f2, Resume 1, Resume 0]
                            \<lparr>app = s, calls = tr, attempts = []\<rparr>)) = Some f2
       \<and> userCvText (app (run env [Select f1, Select f2, Resume 0, Resume 1]
                            \<lparr>app = s, calls = tr, attempts = []\<rparr>)) = t2
       \<and> userCvFile (app (run env [Select f1, Select f2, Resume 0, Resume 1]
                            \<lparr>app = s, calls = tr, attempts = []\<rparr>)) = Some f2
       \<and> parsingError (app (run env [Select f1, Select f2, Resume 1, Resume 0]
                            \<lparr>app = s, calls = tr, attempts = []\<rparr>)) = None
       \<and> parsingError (app (run env [Select f1, Select f2, Resume 0, Resume 1]
                            \<lparr>app = s, calls = tr, attempts = []\<rparr>)) = None"
proof -
  have p1: "\<And>trx. \<exists>tr'. parseFile env f1 trx = (Inr (t1, False), tr')"
    using assms(3) by (rule parseFile_at)
  have p2: "\<And>trx. \<exists>tr'. parseFile env f2 trx = (Inr (t2, False), tr')"
    using assms(4) by (rule parseFile_at)
  obtain tra where a: "parseFile env f2 tr = (Inr (t2, False), tra)"
    using p2 by blast
  obtain trb where b: "parseFile env f1 tra = (Inr (t1, False), trb)"
    using p1 by blast
  obtain trc where c: "parseFile env f1 tr = (Inr (t1, False), trc)"
    using p1 by blast
  obtain trd where d: "parseFile env f2 trc = (Inr (t2, False), trd)"
    using p2 by blast
  show ?thesis
    using a b c d
    by (simp add: step_def accepted_select [OF assms(1)] accepted_select [OF assms(2)]
        hfc_parsed_text hfc_finally_def)
qed

theorem last_resumed_attempt_wins_witness:
  "file_type docx_file \<in> set acceptedTypes \<and> file_type other_docx_file \<in> set acceptedTypes
   \<and> fst (parseFile (sample_env (Inr \<lparr>pages = []\<rparr>) (Inr None)) docx_file []) = Inr (''Jane Doe Engineer'', False)
   \<and> fst (parseFile (sample_env (Inr \<lparr>pages = []\<rparr>) (Inr None)) other_docx_file []) = Inr (''John Roe Analyst'', False)
   \<and> userCvText (app (run (sample_env (Inr \<lparr>pages = []\<rparr>) (Inr None))
         [Select docx_file, Select other_docx_file, Resume 0, Resume 1]
         \<lparr>app = idle, calls = [], attempts = []\<rparr>)) = ''John Roe Analyst''"
proof -
  let ?env = "sample_env (Inr \<lparr>pages = []\<rparr>) (Inr None)"
  have a: "file_type docx_file \<in> set acceptedTypes" "file_type other_docx_file \<in> set acceptedTypes"
    by (simp_all add: docx_file_def other_docx_file_def acceptedTypes_def)
  have p: "fst (parseFile ?env docx_file []) = Inr (''Jane Doe Engineer'', False)"
    by (simp add: parseFile_def docx_file_def sample_env_def)
  have q: "fst (parseFile ?env other_docx_file []) = Inr (''John Roe Analyst'', False)"
    by (simp add: parseFile_def other_docx_file_def sample_env_def)
  from last_resumed_attempt_wins [OF a p q, of idle "[]"] a p q show ?thesis
    by simp
qed

text \<open>
  C3 as stated fails: after the newer attempt has set its text, the stale attempt resumes and
  puts the text of the first file in its place, while the selected file stays the second.
\<close>

theorem stale_attempt_overwrites:
  "userCvFile (app (run (sample_env (Inr \<lparr>pages = []\<rparr>) (Inr None))
      [Select docx_file, Select other_docx_file, Resume 1, Resume 0]
      \<lparr>app = idle, calls = [], attempts = []\<rparr>)) = Some other_docx_file
   \<and> userCvText (app (run (sample_env (Inr \<lparr>pages = []\<rparr>) (Inr None))
      [Select docx_file, Select other_docx_file, Resume 1]
      \<lparr>app = idle, calls = [], attempts = []\<rparr>)) = ''John Roe Analyst''
   \<and> userCvText (app (run (sample_env (Inr \<lparr>pages = []\<rparr>) (Inr None))
      [Select docx_file, Select other_docx_file, Resume 1, Resume 0]
      \<lparr>app = idle, calls = [], attempts = []\<rparr>)) = ''Jane Doe Engineer''"
  by (simp add: step_def hfc_select_def hfc_parsed_def hfc_finally_def parseFile_def
      docx_file_def other_docx_file_def acceptedTypes_def sample_env_def idle_def)

end
